theory Spec2Isabelle
  imports Main "HOL-Library.Word"
begin

section \<open>Data model\<close>

text \<open>
  Go's \<open>error\<close> values are built here with \<open>fmt.Errorf\<close> only, compared with \<open>nil\<close> and
  printed with \<open>%v\<close>: an error is its message, and \<open>nil\<close> is \<open>None\<close>.
\<close>

type_synonym error = string

text \<open>
  \<open>pkg.LogLevel\<close> is compared with a \<open>zapcore.Level\<close> in \<open>pushLogWithLevel\<close>, so it is
  the same signed 8-bit type. Levels are only compared and used as map keys, never
  computed with, so they are integers here.
\<close>

type_synonym LogLevel = int

text \<open>
  Modelled from the spec: the constants \<open>pkg.LevelDebug\<close>, \<open>pkg.LevelInfo\<close>,
  \<open>pkg.LevelWarn\<close> and \<open>pkg.LevelError\<close> are declared in a file of package \<open>pkg\<close> that
  is not among the sources. The spec gives the levels as the enumeration Debug, Info,
  Warn, Error; the numbers are those of the \<open>zapcore.Level\<close> they are compared with.
\<close>

definition LevelDebug :: LogLevel where "LevelDebug = -1"
definition LevelInfo :: LogLevel where "LevelInfo = 0"
definition LevelWarn :: LogLevel where "LevelWarn = 1"
definition LevelError :: LogLevel where "LevelError = 2"

text \<open>The remaining \<open>zapcore\<close> levels, which only the logging facade uses.\<close>

definition DPanicLevel :: LogLevel where "DPanicLevel = 3"
definition PanicLevel :: LogLevel where "PanicLevel = 4"
definition FatalLevel :: LogLevel where "FatalLevel = 5"

text \<open>\<open>pkg.LogEntry\<close>. The timestamp is an \<open>int64\<close> that is stored and printed only.\<close>

record LogEntry =
  Timestamp :: int
  Message :: string
  Level :: LogLevel

text \<open>
  \<open>pkg.Buffer\<close>, without its mutex: every operation below is one critical section.
  The field \<open>size\<close> is \<open>size_buf\<close> here. The capacity argument of \<open>make\<close> is a storage
  hint and is not modelled.
\<close>

record Buffer =
  entries :: "LogEntry list"
  size_buf :: int

text \<open>\<open>loki.Stream\<close> and \<open>loki.PushRequest\<close>; a \<open>[2]string\<close> is a pair.\<close>

record Stream =
  Stream :: "string \<rightharpoonup> string"
  Values :: "(string \<times> string) list"

record PushRequest =
  Streams :: "Stream list"

text \<open>
  What \<open>http.Client.Post\<close> is given and what it gives back. A transport handle is its
  behaviour: from the requests issued so far and the present one to a transport error
  or a response (status code and body).
\<close>

record HttpRequest =
  req_method :: string
  req_url :: string
  req_contentType :: string
  req_body :: string

record HttpResponse =
  StatusCode :: int
  Body :: string

type_synonym HttpClient = "HttpRequest list \<Rightarrow> HttpRequest \<Rightarrow> error + HttpResponse"

text \<open>
  \<open>loki.ClientConfig\<close>. The wait times are \<open>int64\<close> and one is incremented, so they are
  64-bit words read as signed numbers. \<open>BatchSize\<close> is only compared.
\<close>

record ClientConfig =
  URL :: string
  Labels :: "string \<rightharpoonup> string"
  BatchSize :: int
  MinWaitTime :: "64 word"
  MaxWaitTime :: "64 word"
  MinLevel :: LogLevel
  HTTPClient :: "HttpClient option"

text \<open>
  \<open>loki.Client\<close>. The channel \<open>done\<close> (here \<open>done_ch\<close>) is the list of values waiting in it.
\<close>

record Client =
  config :: ClientConfig
  buffer :: Buffer
  done_ch :: "bool list"
  httpClient :: HttpClient
  closed :: bool
  started :: bool

text \<open>
  What the client does to the outside: the HTTP requests issued, the lines written
  with \<open>log.Printf\<close>, and the number of \<open>worker\<close> goroutines spawned and still running.
\<close>

record World =
  posts :: "HttpRequest list"
  logLines :: "string list"
  workers :: nat

text \<open>
  What the program takes from its libraries and runtime: the JSON encoder, the default
  HTTP client, \<open>pkg.LevelToString\<close> (its file is not among the sources, so it is a
  parameter), and the order in which \<open>range\<close> visits the keys of a map, which Go leaves
  unspecified (\<open>mapOrder\<close> is given the keys in order of first insertion).
\<close>

record Env =
  jsonMarshal :: "PushRequest \<Rightarrow> error + string"
  DefaultClient :: HttpClient
  LevelToString :: "LogLevel \<Rightarrow> string"
  mapOrder :: "LogLevel list \<Rightarrow> LogLevel list"

section \<open>Decimal printing\<close>

text \<open>\<open>strconv.FormatInt(i, 10)\<close>, which is also what \<open>%d\<close> prints.\<close>

definition digit_char :: "nat \<Rightarrow> char" where
  "digit_char d = ''0123456789'' ! d"

fun FormatUint :: "nat \<Rightarrow> string" where
  "FormatUint n =
     (if n < 10 then [digit_char n] else FormatUint (n div 10) @ [digit_char (n mod 10)])"

definition FormatInt :: "int \<Rightarrow> string" where
  "FormatInt i = (if i < 0 then CHR ''-'' # FormatUint (nat (- i)) else FormatUint (nat i))"

section \<open>The buffer\<close>

definition NewBuffer :: "int \<Rightarrow> Buffer" where
  "NewBuffer size0 =
     (let size1 = (if size0 \<le> 0 then 100 else size0)
      in \<lparr>entries = [], size_buf = size1\<rparr>)"

text \<open>\<open>Add\<close> returns its result and the buffer after the call.\<close>

definition Add :: "Buffer \<Rightarrow> LogEntry \<Rightarrow> bool \<times> Buffer" where
  "Add b entry =
     (let b' = b\<lparr>entries := entries b @ [entry]\<rparr>
      in (int (length (entries b')) \<ge> size_buf b', b'))"

text \<open>
  \<open>Flush\<close> returns a slice, which is \<open>nil\<close> (\<open>None\<close>) when the buffer holds nothing, and
  the buffer after the call.
\<close>

definition Flush :: "Buffer \<Rightarrow> LogEntry list option \<times> Buffer" where
  "Flush b =
     (if length (entries b) = 0 then (None, b)
      else (Some (entries b), b\<lparr>entries := []\<rparr>))"

text \<open>\<open>len\<close> and \<open>range\<close> on a slice that may be \<open>nil\<close>.\<close>

definition len :: "'a list option \<Rightarrow> nat" where
  "len s = (case s of None \<Rightarrow> 0 | Some xs \<Rightarrow> length xs)"

definition elems :: "'a list option \<Rightarrow> 'a list" where
  "elems s = (case s of None \<Rightarrow> [] | Some xs \<Rightarrow> xs)"

text \<open>A run of \<open>Add\<close> calls, with the results they returned.\<close>

fun AddAll :: "Buffer \<Rightarrow> LogEntry list \<Rightarrow> bool list \<times> Buffer" where
  "AddAll b [] = ([], b)"
| "AddAll b (e # es) =
     (case Add b e of (r, b') \<Rightarrow> (case AddAll b' es of (rs, b'') \<Rightarrow> (r # rs, b'')))"

section \<open>The client\<close>

definition NewClient :: "Env \<Rightarrow> ClientConfig \<Rightarrow> error + Client" where
  "NewClient env config0 =
     (if URL config0 = [] then Inl ''URL is required''
      else
        let config1 = (if BatchSize config0 = 0 then config0\<lparr>BatchSize := 100\<rparr> else config0);
            config2 = (if MinWaitTime config1 = 0 then config1\<lparr>MinWaitTime := 1\<rparr> else config1);
            config3 = (if MaxWaitTime config2 = 0 then config2\<lparr>MaxWaitTime := 10\<rparr> else config2);
            config4 = (if sint (MaxWaitTime config3) \<le> sint (MinWaitTime config3)
                       then config3\<lparr>MaxWaitTime := MinWaitTime config3 + 1\<rparr> else config3);
            hc = (case HTTPClient config4 of None \<Rightarrow> DefaultClient env | Some h \<Rightarrow> h)
        in Inr \<lparr>config = config4, buffer = NewBuffer (BatchSize config4), done_ch = [],
                httpClient = hc, closed = False, started = False\<rparr>)"

text \<open>
  \<open>send\<close>: the result is the error (or \<open>nil\<close>) and the world after the call. The request
  is recorded when \<open>Post\<close> is called, whatever comes back.
\<close>

definition send :: "Env \<Rightarrow> Client \<Rightarrow> World \<Rightarrow> PushRequest \<Rightarrow> error option \<times> World" where
  "send env c w req =
     (case jsonMarshal env req of
        Inl err \<Rightarrow> (Some (''marshal request failed: '' @ err), w)
      | Inr data \<Rightarrow>
          let r = \<lparr>req_method = ''POST'', req_url = URL (config c) @ ''/loki/api/v1/push'',
                   req_contentType = ''application/json'', req_body = data\<rparr>;
              w' = w\<lparr>posts := posts w @ [r]\<rparr>
          in (case httpClient c (posts w) r of
                Inl err \<Rightarrow> (Some (''send request failed: '' @ err), w')
              | Inr resp \<Rightarrow>
                  if StatusCode resp \<noteq> 204
                  then (Some (''unexpected status code: '' @ FormatInt (StatusCode resp)
                               @ '', body: '' @ Body resp), w')
                  else (None, w')))"

text \<open>
  The grouping loop of \<open>flush\<close>: \<open>levelGroups\<close> is a map, kept as an association list
  with one pair per key, in order of first insertion. Appending to a missing key
  starts from the \<open>nil\<close> slice.
\<close>

fun appendGroup ::
  "(LogLevel \<times> (string \<times> string) list) list \<Rightarrow> LogLevel \<Rightarrow> string \<times> string
     \<Rightarrow> (LogLevel \<times> (string \<times> string) list) list" where
  "appendGroup [] l v = [(l, [v])]"
| "appendGroup ((k, vs) # g) l v =
     (if k = l then (k, vs @ [v]) # g else (k, vs) # appendGroup g l v)"

fun groupByLevel ::
  "(LogLevel \<times> (string \<times> string) list) list \<Rightarrow> LogEntry list
     \<Rightarrow> (LogLevel \<times> (string \<times> string) list) list" where
  "groupByLevel levelGroups [] = levelGroups"
| "groupByLevel levelGroups (entry # es) =
     groupByLevel
       (appendGroup levelGroups (Level entry) (FormatInt (Timestamp entry), Message entry)) es"

text \<open>
  The stream loop of \<open>flush\<close>: one stream per key of \<open>levelGroups\<close>, visited in the order
  the runtime chooses. The labels are a copy of the configured ones, then
  \<open>detected_level\<close> is set.
\<close>

definition lookupGroup ::
  "(LogLevel \<times> (string \<times> string) list) list \<Rightarrow> LogLevel \<Rightarrow> (string \<times> string) list" where
  "lookupGroup g l = (case map_of g l of None \<Rightarrow> [] | Some vs \<Rightarrow> vs)"

definition buildStreams ::
  "Env \<Rightarrow> ClientConfig \<Rightarrow> (LogLevel \<times> (string \<times> string) list) list \<Rightarrow> Stream list" where
  "buildStreams env cfg levelGroups =
     map (\<lambda>level.
            let labels = Labels cfg;
                labels' = labels(''detected_level'' \<mapsto> LevelToString env level)
            in \<lparr>Stream = labels', Values = lookupGroup levelGroups level\<rparr>)
         (mapOrder env (map fst levelGroups))"

text \<open>
  Whatever order the runtime chooses, \<open>range\<close> visits every key of the map once.
\<close>

definition rangeOrder_ok :: "(LogLevel list \<Rightarrow> LogLevel list) \<Rightarrow> bool" where
  "rangeOrder_ok f = (\<forall>ks. distinct ks \<longrightarrow> distinct (f ks) \<and> set (f ks) = set ks)"

definition buildRequest :: "Env \<Rightarrow> ClientConfig \<Rightarrow> LogEntry list \<Rightarrow> PushRequest" where
  "buildRequest env cfg es = \<lparr>Streams = buildStreams env cfg (groupByLevel [] es)\<rparr>"

text \<open>
  The end of \<open>flush\<close>: the request is sent once, and an error is written to the
  standard logger and goes no further.
\<close>

definition sendAndReport :: "Env \<Rightarrow> Client \<Rightarrow> World \<Rightarrow> PushRequest \<Rightarrow> Client \<times> World" where
  "sendAndReport env c w req =
     (case send env c w req of
        (Some err, w') \<Rightarrow>
          (c, w'\<lparr>logLines := logLines w' @ [''Failed to send logs to Loki: '' @ err]\<rparr>)
      | (None, w') \<Rightarrow> (c, w'))"

definition flush :: "Env \<Rightarrow> Client \<times> World \<Rightarrow> Client \<times> World" where
  "flush env cw =
     (case cw of (c, w) \<Rightarrow>
        (case Flush (buffer c) of (es, b') \<Rightarrow>
           let c' = c\<lparr>buffer := b'\<rparr>
           in if len es = 0 then (c', w)
              else sendAndReport env c' w (buildRequest env (config c') (elems es))))"

text \<open>
  \<open>pushLogWithLevel\<close>, given the reading of the clock (\<open>time.Now().UnixNano()\<close>).
\<close>

definition pushLogWithLevel ::
  "Env \<Rightarrow> int \<Rightarrow> string \<Rightarrow> LogLevel \<Rightarrow> Client \<times> World \<Rightarrow> error option \<times> Client \<times> World" where
  "pushLogWithLevel env now message level cw =
     (case cw of (c, w) \<Rightarrow>
        if closed c then (Some ''client is closed'', c, w)
        else if \<not> started c then (Some ''client is not started'', c, w)
        else if level < MinLevel (config c) then (None, c, w)
        else
          let entry = \<lparr>Timestamp = now, Message = message, Level = level\<rparr>
          in (case Add (buffer c) entry of (full, b') \<Rightarrow>
                let c' = c\<lparr>buffer := b'\<rparr>
                in if full then (None, flush env (c', w)) else (None, c', w)))"

definition Debug :: "Env \<Rightarrow> int \<Rightarrow> string \<Rightarrow> Client \<times> World \<Rightarrow> error option \<times> Client \<times> World" where
  "Debug env now message cw = pushLogWithLevel env now message LevelDebug cw"

definition Info :: "Env \<Rightarrow> int \<Rightarrow> string \<Rightarrow> Client \<times> World \<Rightarrow> error option \<times> Client \<times> World" where
  "Info env now message cw = pushLogWithLevel env now message LevelInfo cw"

definition Warn :: "Env \<Rightarrow> int \<Rightarrow> string \<Rightarrow> Client \<times> World \<Rightarrow> error option \<times> Client \<times> World" where
  "Warn env now message cw = pushLogWithLevel env now message LevelWarn cw"

definition Error :: "Env \<Rightarrow> int \<Rightarrow> string \<Rightarrow> Client \<times> World \<Rightarrow> error option \<times> Client \<times> World" where
  "Error env now message cw = pushLogWithLevel env now message LevelError cw"

text \<open>\<open>Start\<close>: \<open>Swap\<close> sets the flag and returns what it was; \<open>go\<close> adds a worker.\<close>

definition Start :: "Client \<times> World \<Rightarrow> Client \<times> World" where
  "Start cw =
     (case cw of (c, w) \<Rightarrow>
        let was = started c; c' = c\<lparr>started := True\<rparr>
        in if was then (c', w) else (c', w\<lparr>workers := workers w + 1\<rparr>))"

text \<open>
  \<open>Stop\<close>: \<open>||\<close> evaluates \<open>closed.Swap(true)\<close> only when the client is started. The
  final sleep changes nothing here.
\<close>

definition Stop :: "Env \<Rightarrow> Client \<times> World \<Rightarrow> Client \<times> World" where
  "Stop env cw =
     (case cw of (c, w) \<Rightarrow>
        if \<not> started c then (c, w)
        else
          let was = closed c; c' = c\<lparr>closed := True\<rparr>
          in if was then (c', w)
             else (case flush env (c', w) of (c'', w') \<Rightarrow> (c''\<lparr>done_ch := done_ch c'' @ [True]\<rparr>, w')))"

text \<open>
  One turn of the \<open>select\<close> in \<open>worker\<close>. The clock comparisons are inputs: \<open>due\<close> is
  \<open>time.Since(lastFlush) >= MaxWaitTime\<close> at a tick, \<open>elapsed\<close> is
  \<open>time.Since(lastFlush) > 0\<close> at the stop signal. A turn needs a running worker, and
  the stop case needs a value in \<open>done\<close>.
\<close>

definition workerTick :: "Env \<Rightarrow> bool \<Rightarrow> Client \<times> World \<Rightarrow> Client \<times> World" where
  "workerTick env due cw =
     (case cw of (c, w) \<Rightarrow>
        if workers w = 0 then (c, w)
        else if due then flush env (c, w) else (c, w))"

definition workerDone :: "Env \<Rightarrow> bool \<Rightarrow> Client \<times> World \<Rightarrow> Client \<times> World" where
  "workerDone env elapsed cw =
     (case cw of (c, w) \<Rightarrow>
        if workers w = 0 \<or> done_ch c = [] then (c, w)
        else
          let c' = c\<lparr>done_ch := tl (done_ch c)\<rparr>
          in (case (if elapsed then flush env (c', w) else (c', w)) of
                (c'', w') \<Rightarrow> (c'', w'\<lparr>workers := workers w' - 1\<rparr>)))"

text \<open>The calls a program can make on a client, and the worker's turns between them.\<close>

datatype Op =
    OpPush int string LogLevel
  | OpStart
  | OpStop
  | OpTick bool
  | OpDone bool

fun step :: "Env \<Rightarrow> Op \<Rightarrow> Client \<times> World \<Rightarrow> Client \<times> World" where
  "step env (OpPush now message level) cw = snd (pushLogWithLevel env now message level cw)"
| "step env OpStart cw = Start cw"
| "step env OpStop cw = Stop env cw"
| "step env (OpTick due) cw = workerTick env due cw"
| "step env (OpDone elapsed) cw = workerDone env elapsed cw"

fun run :: "Env \<Rightarrow> Op list \<Rightarrow> Client \<times> World \<Rightarrow> Client \<times> World" where
  "run env [] cw = cw"
| "run env (op # ops) cw = run env ops (step env op cw)"

section \<open>The logging facade\<close>

text \<open>
  A \<open>zap.Field\<close> is a key and its value as text. \<open>formatMessage\<close> takes the JSON
  encoder of the field list, \<open>fieldsJSON\<close>, as a parameter.
\<close>

type_synonym Field = "string \<times> string"

definition formatMessage :: "(Field list \<Rightarrow> error + string) \<Rightarrow> string \<Rightarrow> Field list \<Rightarrow> string" where
  "formatMessage fieldsJSON msg flds =
     (if length flds = 0 then msg
      else (case fieldsJSON flds of
              Inl err \<Rightarrow> msg
            | Inr js \<Rightarrow> msg @ '' '' @ js))"

text \<open>
  The calls a facade method makes, in order: to the embedded \<open>zap.Logger\<close> and to the
  Loki client.
\<close>

datatype Call = LocalCall LogLevel string | RemoteCall LogLevel string

datatype Outcome = Returned | Panicked | Exited

record Logger =
  lokiClient :: "Client option"
  world :: World
  calls :: "Call list"

text \<open>
  The embedded \<open>zap.Logger\<close> belongs to the library \<open>go.uber.org/zap\<close>. By its
  documentation \<open>Panic\<close> logs and then panics, \<open>Fatal\<close> logs and then calls
  \<open>os.Exit(1)\<close>, and \<open>DPanic\<close> panics only in a logger built with the development
  option, which \<open>NewLogger\<close> does not pass; the other methods return.
\<close>

definition zapLog :: "LogLevel \<Rightarrow> string \<Rightarrow> Logger \<Rightarrow> Outcome \<times> Logger" where
  "zapLog level msg l =
     (let l' = l\<lparr>calls := calls l @ [LocalCall level msg]\<rparr>
      in if level = PanicLevel then (Panicked, l')
         else if level = FatalLevel then (Exited, l')
         else (Returned, l'))"

text \<open>
  The guarded call to the Loki client that every facade method contains; the error
  it returns is discarded.
\<close>

definition lokiLog ::
  "Env \<Rightarrow> (Field list \<Rightarrow> error + string) \<Rightarrow> int \<Rightarrow> LogLevel \<Rightarrow> string \<Rightarrow> Field list
     \<Rightarrow> Logger \<Rightarrow> Outcome \<times> Logger" where
  "lokiLog env fieldsJSON now level msg flds l =
     (case lokiClient l of
        None \<Rightarrow> (Returned, l)
      | Some c \<Rightarrow>
          let formattedMsg = formatMessage fieldsJSON msg flds
          in (case pushLogWithLevel env now formattedMsg level (c, world l) of
                (err, c', w') \<Rightarrow>
                  (Returned, l\<lparr>lokiClient := Some c', world := w',
                                calls := calls l @ [RemoteCall level formattedMsg]\<rparr>)))"

text \<open>Statements in sequence: the second runs only if the first returned.\<close>

definition andThen :: "Outcome \<times> Logger \<Rightarrow> (Logger \<Rightarrow> Outcome \<times> Logger) \<Rightarrow> Outcome \<times> Logger" where
  "andThen r f = (case r of (Returned, l) \<Rightarrow> f l | (out, l) \<Rightarrow> (out, l))"

definition Logger_Debug ::
  "Env \<Rightarrow> (Field list \<Rightarrow> error + string) \<Rightarrow> int \<Rightarrow> string \<Rightarrow> Field list \<Rightarrow> Logger \<Rightarrow> Outcome \<times> Logger" where
  "Logger_Debug env fieldsJSON now msg flds l =
     andThen (zapLog LevelDebug msg l) (lokiLog env fieldsJSON now LevelDebug msg flds)"

definition Logger_Info ::
  "Env \<Rightarrow> (Field list \<Rightarrow> error + string) \<Rightarrow> int \<Rightarrow> string \<Rightarrow> Field list \<Rightarrow> Logger \<Rightarrow> Outcome \<times> Logger" where
  "Logger_Info env fieldsJSON now msg flds l =
     andThen (zapLog LevelInfo msg l) (lokiLog env fieldsJSON now LevelInfo msg flds)"

definition Logger_Warn ::
  "Env \<Rightarrow> (Field list \<Rightarrow> error + string) \<Rightarrow> int \<Rightarrow> string \<Rightarrow> Field list \<Rightarrow> Logger \<Rightarrow> Outcome \<times> Logger" where
  "Logger_Warn env fieldsJSON now msg flds l =
     andThen (zapLog LevelWarn msg l) (lokiLog env fieldsJSON now LevelWarn msg flds)"

definition Logger_Error ::
  "Env \<Rightarrow> (Field list \<Rightarrow> error + string) \<Rightarrow> int \<Rightarrow> string \<Rightarrow> Field list \<Rightarrow> Logger \<Rightarrow> Outcome \<times> Logger" where
  "Logger_Error env fieldsJSON now msg flds l =
     andThen (zapLog LevelError msg l) (lokiLog env fieldsJSON now LevelError msg flds)"

definition Logger_DPanic ::
  "Env \<Rightarrow> (Field list \<Rightarrow> error + string) \<Rightarrow> int \<Rightarrow> string \<Rightarrow> Field list \<Rightarrow> Logger \<Rightarrow> Outcome \<times> Logger" where
  "Logger_DPanic env fieldsJSON now msg flds l =
     andThen (zapLog DPanicLevel msg l) (lokiLog env fieldsJSON now LevelError msg flds)"

definition Logger_Panic ::
  "Env \<Rightarrow> (Field list \<Rightarrow> error + string) \<Rightarrow> int \<Rightarrow> string \<Rightarrow> Field list \<Rightarrow> Logger \<Rightarrow> Outcome \<times> Logger" where
  "Logger_Panic env fieldsJSON now msg flds l =
     andThen (zapLog PanicLevel msg l) (lokiLog env fieldsJSON now LevelError msg flds)"

definition Logger_Fatal ::
  "Env \<Rightarrow> (Field list \<Rightarrow> error + string) \<Rightarrow> int \<Rightarrow> string \<Rightarrow> Field list \<Rightarrow> Logger \<Rightarrow> Outcome \<times> Logger" where
  "Logger_Fatal env fieldsJSON now msg flds l =
     andThen (lokiLog env fieldsJSON now LevelError msg flds l) (zapLog FatalLevel msg)"

section \<open>Concrete values\<close>

text \<open>
  An environment, a transport and a client on which the theorems below are
  exercised: a server that answers 204, one that answers 500, a runtime that visits
  map keys in reverse order of insertion.
\<close>

definition okTransport :: HttpClient where
  "okTransport h r = Inr \<lparr>StatusCode = 204, Body = []\<rparr>"

definition failTransport :: HttpClient where
  "failTransport h r = Inr \<lparr>StatusCode = 500, Body = ''overloaded''\<rparr>"

definition demoEnv :: Env where
  "demoEnv =
     \<lparr>jsonMarshal = (\<lambda>req. Inr ''{}''),
      DefaultClient = okTransport,
      LevelToString =
        (\<lambda>l. if l = LevelDebug then ''debug'' else if l = LevelInfo then ''info''
              else if l = LevelWarn then ''warn'' else ''error''),
      mapOrder = rev\<rparr>"

definition demoConfig :: ClientConfig where
  "demoConfig =
     \<lparr>URL = ''http://loki:3100'', Labels = [''app'' \<mapsto> ''demo''], BatchSize = 2,
      MinWaitTime = 0, MaxWaitTime = 0, MinLevel = LevelInfo, HTTPClient = None\<rparr>"

definition demoClient :: "HttpClient \<Rightarrow> LogEntry list \<Rightarrow> bool \<Rightarrow> bool \<Rightarrow> Client" where
  "demoClient h es st cl =
     \<lparr>config = demoConfig\<lparr>BatchSize := 3, MinWaitTime := 1, MaxWaitTime := 10\<rparr>, buffer = \<lparr>entries = es, size_buf = 3\<rparr>,
      done_ch = [], httpClient = h, closed = cl, started = st\<rparr>"

definition demoWorld :: World where
  "demoWorld = \<lparr>posts = [], logLines = [], workers = 0\<rparr>"

definition demoEntries :: "LogEntry list" where
  "demoEntries =
     [\<lparr>Timestamp = 1, Message = ''a'', Level = LevelInfo\<rparr>,
      \<lparr>Timestamp = 2, Message = ''b'', Level = LevelError\<rparr>,
      \<lparr>Timestamp = 3, Message = ''c'', Level = LevelInfo\<rparr>]"

section \<open>Buffer properties\<close>

lemma AddAll_Cons_snd: "snd (AddAll b (e # es)) = snd (AddAll (snd (Add b e)) es)"
  by (simp split: prod.splits)

lemma AddAll_buffer: "snd (AddAll b es) = b\<lparr>entries := entries b @ es\<rparr>"
proof (induction es arbitrary: b)
  case Nil
  show ?case by simp
next
  case (Cons e es)
  have "snd (AddAll b (e # es)) = snd (AddAll (snd (Add b e)) es)"
    by (rule AddAll_Cons_snd)
  also have "\<dots> = (snd (Add b e))\<lparr>entries := entries (snd (Add b e)) @ es\<rparr>"
    by (rule Cons.IH)
  also have "\<dots> = b\<lparr>entries := entries b @ e # es\<rparr>"
    by (simp add: Add_def Let_def)
  finally show ?case .
qed

lemma Flush_buffer_snd: "snd (Flush b) = b\<lparr>entries := []\<rparr>"
  by (simp add: Flush_def)

text \<open>
  C3. \<open>Add\<close> appends the entry, and its result is true exactly when the length after
  the append has reached the threshold. With threshold 3 the three first calls return
  false, false, true.
\<close>

theorem Add_threshold:
  "snd (Add b e) = b\<lparr>entries := entries b @ [e]\<rparr>
   \<and> fst (Add b e) = (size_buf b \<le> int (length (entries (snd (Add b e)))))
   \<and> fst (AddAll (NewBuffer 3) [e1, e2, e3]) = [False, False, True]"
  by (simp add: Add_def Let_def NewBuffer_def)

section \<open>Flushing\<close>

lemma sendAndReport_fst: "fst (sendAndReport env c w req) = c"
  by (simp add: sendAndReport_def split: prod.splits option.splits)

lemma flush_fst: "fst (flush env (c, w)) = c\<lparr>buffer := snd (Flush (buffer c))\<rparr>"
  by (simp add: flush_def Let_def sendAndReport_fst split: prod.splits)

lemma flush_empty: "entries (buffer c) = [] \<Longrightarrow> flush env (c, w) = (c, w)"
  by (simp add: flush_def Flush_def len_def)

lemma flush_nonempty:
  "entries (buffer c) \<noteq> [] \<Longrightarrow>
   flush env (c, w) =
     sendAndReport env (c\<lparr>buffer := (buffer c)\<lparr>entries := []\<rparr>\<rparr>) w
       (buildRequest env (config c) (entries (buffer c)))"
  by (simp add: flush_def Flush_def len_def elems_def Let_def)

text \<open>
  C2. After any run of \<open>Add\<close> calls on a buffer that was just built or just flushed,
  \<open>Flush\<close> returns the added entries in the order they were added and leaves the
  buffer as it was before the run, that is, empty. If nothing was added the result is
  \<open>nil\<close>, which is no non-empty result, and the client's \<open>flush\<close> on an empty buffer
  changes nothing: no request is issued.
\<close>

theorem Flush_returns_added:
  "Flush (snd (AddAll (NewBuffer n) es)) = (if es = [] then None else Some es, NewBuffer n)
   \<and> Flush (snd (AddAll (snd (Flush b0)) es)) = (if es = [] then None else Some es, snd (Flush b0))
   \<and> entries (NewBuffer n) = [] \<and> entries (snd (Flush b0)) = []
   \<and> (None :: LogEntry list option) \<noteq> Some es
   \<and> (entries (buffer c) = [] \<longrightarrow> flush env (c, w) = (c, w))"
  by (simp add: AddAll_buffer Flush_def NewBuffer_def Let_def flush_empty)

theorem Flush_returns_added_witness:
  "entries (buffer (demoClient okTransport [] True False)) = []
   \<and> flush demoEnv (demoClient okTransport [] True False, demoWorld)
       = (demoClient okTransport [] True False, demoWorld)
   \<and> Flush (snd (AddAll (NewBuffer 3) demoEntries)) = (Some demoEntries, NewBuffer 3)
   \<and> Flush (snd (AddAll (NewBuffer 3) [])) = (None, NewBuffer 3)"
  using Flush_returns_added [where n = 3 and es = demoEntries
          and c = "demoClient okTransport [] True False" and env = demoEnv and w = demoWorld]
        Flush_returns_added [where n = 3 and es = "[]"]
  by (simp add: demoClient_def demoEntries_def)

subsection \<open>Grouping by level\<close>

lemma keys_appendGroup:
  "map fst (appendGroup g l v) = (if l \<in> set (map fst g) then map fst g else map fst g @ [l])"
  by (induction g l v rule: appendGroup.induct) auto

lemma keys_appendGroup_set: "fst ` set (appendGroup g l v) = insert l (fst ` set g)"
  by (induction g l v rule: appendGroup.induct) auto

lemma lookupGroup_Nil: "lookupGroup [] k = []"
  by (simp add: lookupGroup_def)

lemma lookup_appendGroup:
  "lookupGroup (appendGroup g l v) k = (if k = l then lookupGroup g l @ [v] else lookupGroup g k)"
  by (induction g l v rule: appendGroup.induct) (auto simp: lookupGroup_def)

lemma keys_groupByLevel_set:
  "fst ` set (groupByLevel g es) = fst ` set g \<union> Level ` set es"
  by (induction es arbitrary: g) (simp_all add: keys_appendGroup_set)

lemma keys_groupByLevel_distinct:
  "distinct (map fst g) \<Longrightarrow> distinct (map fst (groupByLevel g es))"
  by (induction es arbitrary: g) (auto simp: keys_appendGroup)

lemma lookup_groupByLevel:
  "lookupGroup (groupByLevel g es) k =
     lookupGroup g k @ map (\<lambda>e. (FormatInt (Timestamp e), Message e)) (filter (\<lambda>e. Level e = k) es)"
  by (induction es arbitrary: g) (auto simp: lookup_appendGroup)

text \<open>
  C1. When the buffer is not empty, \<open>flush\<close> empties it and sends one request whose
  streams are, for a list \<open>ks\<close> that holds each level of the batch exactly once, one
  stream per level of \<open>ks\<close>: its labels are the configured labels with
  \<open>detected_level\<close> set to the name of the level, its values are the entries of that
  level as pairs of decimal timestamp and message, in the order they were buffered.
  Go does not fix the order of the streams; any order of the keys gives this result.
\<close>

theorem flush_one_stream_per_level:
  assumes "rangeOrder_ok (mapOrder env)" and "entries (buffer c) \<noteq> []"
  shows "\<exists>ks. distinct ks \<and> set ks = Level ` set (entries (buffer c)) \<and>
           flush env (c, w) =
             sendAndReport env (c\<lparr>buffer := (buffer c)\<lparr>entries := []\<rparr>\<rparr>) w
               \<lparr>Streams =
                  map (\<lambda>l. \<lparr>Stream = (Labels (config c))(''detected_level'' \<mapsto> LevelToString env l),
                            Values = map (\<lambda>e. (FormatInt (Timestamp e), Message e))
                                         (filter (\<lambda>e. Level e = l) (entries (buffer c)))\<rparr>)
                      ks\<rparr>"
proof -
  let ?es = "entries (buffer c)"
  let ?g = "groupByLevel [] ?es"
  let ?ks = "mapOrder env (map fst ?g)"
  have d: "distinct (map fst ?g)"
    by (rule keys_groupByLevel_distinct) simp
  with assms(1) have "distinct ?ks" and "set ?ks = set (map fst ?g)"
    by (simp_all add: rangeOrder_ok_def)
  then have k: "distinct ?ks" "set ?ks = Level ` set ?es"
    by (simp_all add: keys_groupByLevel_set)
  have "lookupGroup ?g l =
          map (\<lambda>e. (FormatInt (Timestamp e), Message e)) (filter (\<lambda>e. Level e = l) ?es)" for l
    by (simp add: lookup_groupByLevel lookupGroup_Nil)
  then have "flush env (c, w) =
             sendAndReport env (c\<lparr>buffer := (buffer c)\<lparr>entries := []\<rparr>\<rparr>) w
               \<lparr>Streams =
                  map (\<lambda>l. \<lparr>Stream = (Labels (config c))(''detected_level'' \<mapsto> LevelToString env l),
                            Values = map (\<lambda>e. (FormatInt (Timestamp e), Message e))
                                         (filter (\<lambda>e. Level e = l) ?es)\<rparr>)
                      ?ks\<rparr>"
    using assms(2) by (simp add: flush_nonempty buildRequest_def buildStreams_def Let_def)
  with k show ?thesis by blast
qed

theorem flush_one_stream_per_level_witness:
  "rangeOrder_ok (mapOrder demoEnv)
   \<and> entries (buffer (demoClient okTransport demoEntries True False)) \<noteq> []
   \<and> (\<exists>ks. distinct ks \<and> set ks = {LevelInfo, LevelError} \<and>
         flush demoEnv (demoClient okTransport demoEntries True False, demoWorld) =
           sendAndReport demoEnv (demoClient okTransport [] True False) demoWorld
             \<lparr>Streams =
                map (\<lambda>l. \<lparr>Stream = [''app'' \<mapsto> ''demo'', ''detected_level'' \<mapsto> LevelToString demoEnv l],
                          Values = map (\<lambda>e. (FormatInt (Timestamp e), Message e))
                                       (filter (\<lambda>e. Level e = l) demoEntries)\<rparr>)
                    ks\<rparr>)
   \<and> map Values (Streams (buildRequest demoEnv demoConfig demoEntries))
       = [[(''2'', ''b'')], [(''1'', ''a''), (''3'', ''c'')]]
   \<and> map (\<lambda>s. Stream s ''detected_level'') (Streams (buildRequest demoEnv demoConfig demoEntries))
       = [Some ''error'', Some ''info'']"
proof -
  have h1: "rangeOrder_ok (mapOrder demoEnv)"
    by (simp add: demoEnv_def rangeOrder_ok_def)
  have h2: "entries (buffer (demoClient okTransport demoEntries True False)) \<noteq> []"
    by (simp add: demoClient_def demoEntries_def)
  have e: "map Values (Streams (buildRequest demoEnv demoConfig demoEntries))
             = [[(''2'', ''b'')], [(''1'', ''a''), (''3'', ''c'')]]
           \<and> map (\<lambda>s. Stream s ''detected_level'') (Streams (buildRequest demoEnv demoConfig demoEntries))
             = [Some ''error'', Some ''info'']"
    by (simp add: buildRequest_def buildStreams_def demoEnv_def demoConfig_def demoEntries_def
          lookupGroup_def LevelInfo_def LevelError_def LevelDebug_def LevelWarn_def FormatInt_def digit_char_def)
  have s: "Level ` set demoEntries = {LevelInfo, LevelError}"
    by (auto simp: demoEntries_def)
  from flush_one_stream_per_level [OF h1 h2, of demoWorld] h1 h2 e s show ?thesis
    by (simp add: demoClient_def demoConfig_def)
qed

section \<open>Lifecycle\<close>

lemma flush_closed: "closed (fst (flush env cw)) = closed (fst cw)"
  by (cases cw) (simp add: flush_fst)

lemma flush_started: "started (fst (flush env cw)) = started (fst cw)"
  by (cases cw) (simp add: flush_fst)

lemma push_closed: "closed (fst (snd (pushLogWithLevel env now msg lvl cw))) = closed (fst cw)"
  by (cases cw) (simp add: pushLogWithLevel_def Let_def flush_fst split: prod.splits)

lemma push_started: "started (fst (snd (pushLogWithLevel env now msg lvl cw))) = started (fst cw)"
  by (cases cw) (simp add: pushLogWithLevel_def Let_def flush_fst split: prod.splits)

lemma Start_closed: "closed (fst (Start cw)) = closed (fst cw)"
  by (cases cw) (simp add: Start_def Let_def)

lemma Stop_closed: "closed (fst (Stop env cw)) = (closed (fst cw) \<or> started (fst cw))"
  by (cases cw) (simp add: Stop_def Let_def case_prod_beta flush_fst)

lemma workerTick_closed: "closed (fst (workerTick env due cw)) = closed (fst cw)"
  by (cases cw) (simp add: workerTick_def flush_fst)

lemma workerDone_closed: "closed (fst (workerDone env el cw)) = closed (fst cw)"
  by (cases cw) (simp add: workerDone_def Let_def case_prod_beta flush_fst)

lemma step_keeps_closed: "closed (fst cw) \<Longrightarrow> closed (fst (step env op cw))"
  by (cases op) (simp_all add: push_closed Start_closed Stop_closed workerTick_closed workerDone_closed)

lemma run_keeps_closed: "closed (fst cw) \<Longrightarrow> closed (fst (run env ops cw))"
  by (induction ops arbitrary: cw) (simp_all add: step_keeps_closed)

lemma push_when_closed:
  "closed (fst cw) \<Longrightarrow> pushLogWithLevel env now msg lvl cw = (Some ''client is closed'', cw)"
  by (cases cw) (simp add: pushLogWithLevel_def)

lemma push_no_error:
  "started c \<Longrightarrow> \<not> closed c \<Longrightarrow> fst (pushLogWithLevel env now msg lvl (c, w)) = None"
  by (simp add: pushLogWithLevel_def Let_def split: prod.splits)

text \<open>
  C4. Once a started client has been stopped, whatever calls and worker turns follow,
  a submit (\<open>pushLogWithLevel\<close> at any level, so each of \<open>Debug\<close>, \<open>Info\<close>, \<open>Warn\<close>,
  \<open>Error\<close>) returns the error "client is closed" and leaves client and world as they
  were. On a client that was never started and is not closed the error is "client is
  not started", again with nothing changed. Both checks come before the append.
\<close>

theorem submit_after_stop_rejected:
  "(started c \<longrightarrow>
      (let cw = run env ops (Stop env (c, w))
       in pushLogWithLevel env now msg lvl cw = (Some ''client is closed'', cw)
          \<and> Debug env now msg cw = (Some ''client is closed'', cw)
          \<and> Info env now msg cw = (Some ''client is closed'', cw)
          \<and> Warn env now msg cw = (Some ''client is closed'', cw)
          \<and> Error env now msg cw = (Some ''client is closed'', cw)))
   \<and> (\<not> started c \<and> \<not> closed c \<longrightarrow>
        pushLogWithLevel env now msg lvl (c, w) = (Some ''client is not started'', c, w))"
proof -
  have "closed (fst (run env ops (Stop env (c, w))))" if "started c"
    using that by (intro run_keeps_closed) (simp add: Stop_closed)
  then show ?thesis
    by (simp add: Let_def push_when_closed Debug_def Info_def Warn_def Error_def)
       (simp add: pushLogWithLevel_def)
qed

theorem submit_after_stop_rejected_witness:
  "started (demoClient okTransport demoEntries True False)
   \<and> (let cw = run demoEnv [OpStart, OpPush 4 ''d'' LevelError, OpStop, OpDone True]
                  (Stop demoEnv (demoClient okTransport demoEntries True False, demoWorld))
      in pushLogWithLevel demoEnv 5 ''late'' LevelError cw = (Some ''client is closed'', cw)
         \<and> Info demoEnv 5 ''late'' cw = (Some ''client is closed'', cw))
   \<and> \<not> started (demoClient okTransport [] False False)
   \<and> \<not> closed (demoClient okTransport [] False False)
   \<and> pushLogWithLevel demoEnv 5 ''early'' LevelError (demoClient okTransport [] False False, demoWorld)
       = (Some ''client is not started'', demoClient okTransport [] False False, demoWorld)"
proof -
  have h: "started (demoClient okTransport demoEntries True False)"
    by (simp add: demoClient_def)
  have g: "\<not> started (demoClient okTransport [] False False) \<and> \<not> closed (demoClient okTransport [] False False)"
    by (simp add: demoClient_def)
  from h submit_after_stop_rejected [where c = "demoClient okTransport demoEntries True False"
         and env = demoEnv and w = demoWorld and now = 5 and msg = "''late''" and lvl = LevelError
         and ops = "[OpStart, OpPush 4 ''d'' LevelError, OpStop, OpDone True]"]
  have a: "let cw = run demoEnv [OpStart, OpPush 4 ''d'' LevelError, OpStop, OpDone True]
                  (Stop demoEnv (demoClient okTransport demoEntries True False, demoWorld))
      in pushLogWithLevel demoEnv 5 ''late'' LevelError cw = (Some ''client is closed'', cw)
         \<and> Info demoEnv 5 ''late'' cw = (Some ''client is closed'', cw)"
    by (simp only: Let_def)
  from g submit_after_stop_rejected [where c = "demoClient okTransport [] False False"
         and env = demoEnv and w = demoWorld and now = 5 and msg = "''early''" and lvl = LevelError]
  have b: "pushLogWithLevel demoEnv 5 ''early'' LevelError (demoClient okTransport [] False False, demoWorld)
       = (Some ''client is not started'', demoClient okTransport [] False False, demoWorld)"
    by blast
  from h g a b show ?thesis by blast
qed

text \<open>
  C5. On a started client that is not closed, a submit whose level is below the
  configured minimum returns no error and leaves client and world, so the buffer and
  its length, unchanged. In particular \<open>Debug\<close> does so when the minimum is Info.
\<close>

theorem below_min_level_dropped:
  "(started c \<and> \<not> closed c \<and> lvl < MinLevel (config c) \<longrightarrow>
      pushLogWithLevel env now msg lvl (c, w) = (None, c, w))
   \<and> (started c \<and> \<not> closed c \<and> MinLevel (config c) = LevelInfo \<longrightarrow>
      Debug env now msg (c, w) = (None, c, w))"
  by (simp add: pushLogWithLevel_def Debug_def LevelDebug_def LevelInfo_def)

theorem below_min_level_dropped_witness:
  "started (demoClient okTransport demoEntries True False)
   \<and> \<not> closed (demoClient okTransport demoEntries True False)
   \<and> LevelDebug < MinLevel (config (demoClient okTransport demoEntries True False))
   \<and> MinLevel (config (demoClient okTransport demoEntries True False)) = LevelInfo
   \<and> pushLogWithLevel demoEnv 9 ''x'' LevelDebug (demoClient okTransport demoEntries True False, demoWorld)
       = (None, demoClient okTransport demoEntries True False, demoWorld)
   \<and> Debug demoEnv 9 ''x'' (demoClient okTransport demoEntries True False, demoWorld)
       = (None, demoClient okTransport demoEntries True False, demoWorld)"
proof -
  have h: "started (demoClient okTransport demoEntries True False)
   \<and> \<not> closed (demoClient okTransport demoEntries True False)
   \<and> LevelDebug < MinLevel (config (demoClient okTransport demoEntries True False))
   \<and> MinLevel (config (demoClient okTransport demoEntries True False)) = LevelInfo"
    by (simp add: demoClient_def demoConfig_def LevelDebug_def LevelInfo_def)
  with below_min_level_dropped [where c = "demoClient okTransport demoEntries True False"
         and lvl = LevelDebug and env = demoEnv and now = 9 and msg = "''x''" and w = demoWorld]
  show ?thesis by blast
qed

section \<open>Transport\<close>

lemma send_posts_length: "length (posts (snd (send env c w req))) \<le> length (posts w) + 1"
  by (simp add: send_def Let_def split: sum.splits)

text \<open>
  C6. \<open>send\<close> issues exactly one request: a POST to the configured URL followed by
  \<open>/loki/api/v1/push\<close>, with content type \<open>application/json\<close> and the encoded request
  as body. It returns \<open>nil\<close> exactly when a response came back with status 204; for a
  response with any other status it returns an error that carries the status code and
  the body. The hypothesis says that the JSON encoder returned the body: Go's encoder
  has no failing case for a value made of strings, string maps and slices.
\<close>

theorem send_posts_once:
  assumes "jsonMarshal env req = Inr data"
  shows "posts (snd (send env c w req)) =
           posts w @ [\<lparr>req_method = ''POST'', req_url = URL (config c) @ ''/loki/api/v1/push'',
                       req_contentType = ''application/json'', req_body = data\<rparr>]
         \<and> logLines (snd (send env c w req)) = logLines w
         \<and> (fst (send env c w req) = None \<longleftrightarrow>
              (\<exists>resp. httpClient c (posts w)
                         \<lparr>req_method = ''POST'', req_url = URL (config c) @ ''/loki/api/v1/push'',
                          req_contentType = ''application/json'', req_body = data\<rparr> = Inr resp
                      \<and> StatusCode resp = 204))
         \<and> (\<forall>resp. httpClient c (posts w)
                       \<lparr>req_method = ''POST'', req_url = URL (config c) @ ''/loki/api/v1/push'',
                        req_contentType = ''application/json'', req_body = data\<rparr> = Inr resp
                    \<and> StatusCode resp \<noteq> 204 \<longrightarrow>
                fst (send env c w req) =
                  Some (''unexpected status code: '' @ FormatInt (StatusCode resp)
                        @ '', body: '' @ Body resp))"
  using assms by (auto simp: send_def Let_def split: sum.splits)

theorem send_posts_once_witness:
  "jsonMarshal demoEnv \<lparr>Streams = []\<rparr> = Inr ''{}''
   \<and> posts (snd (send demoEnv (demoClient failTransport [] True False) demoWorld \<lparr>Streams = []\<rparr>))
       = [\<lparr>req_method = ''POST'', req_url = ''http://loki:3100/loki/api/v1/push'',
           req_contentType = ''application/json'', req_body = ''{}''\<rparr>]
   \<and> fst (send demoEnv (demoClient failTransport [] True False) demoWorld \<lparr>Streams = []\<rparr>)
       = Some ''unexpected status code: 500, body: overloaded''
   \<and> fst (send demoEnv (demoClient okTransport [] True False) demoWorld \<lparr>Streams = []\<rparr>) = None"
proof -
  have h: "jsonMarshal demoEnv \<lparr>Streams = []\<rparr> = Inr ''{}''"
    by (simp add: demoEnv_def)
  have u: "URL (config (demoClient t [] True False)) = ''http://loki:3100''" for t
    by (simp add: demoClient_def demoConfig_def)
  have p: "posts demoWorld = []"
    by (simp add: demoWorld_def)
  from send_posts_once [OF h, of "demoClient failTransport [] True False" demoWorld]
  have a: "posts (snd (send demoEnv (demoClient failTransport [] True False) demoWorld \<lparr>Streams = []\<rparr>))
       = [\<lparr>req_method = ''POST'', req_url = ''http://loki:3100/loki/api/v1/push'',
           req_contentType = ''application/json'', req_body = ''{}''\<rparr>]"
    by (simp add: u p)
  have b: "fst (send demoEnv (demoClient failTransport [] True False) demoWorld \<lparr>Streams = []\<rparr>)
       = Some ''unexpected status code: 500, body: overloaded''"
    by (simp add: send_def demoEnv_def demoClient_def failTransport_def FormatInt_def digit_char_def)
  have c: "fst (send demoEnv (demoClient okTransport [] True False) demoWorld \<lparr>Streams = []\<rparr>) = None"
    by (simp add: send_def demoEnv_def demoClient_def okTransport_def)
  from h a b c show ?thesis by blast
qed

text \<open>
  C7. When the buffer is not empty and the send fails with an error, \<open>flush\<close> leaves
  the client with an empty buffer and writes the error as one line to the standard
  logger; at most one request was issued, so nothing is retried. The buffer after a
  flush depends on the buffer before it only, never on how the send went. A submit
  on a started client that is not closed returns \<open>nil\<close> whatever the transport does.
\<close>

theorem failed_delivery_dropped:
  assumes "entries (buffer c) \<noteq> []"
      and "send env (c\<lparr>buffer := (buffer c)\<lparr>entries := []\<rparr>\<rparr>) w
             (buildRequest env (config c) (entries (buffer c))) = (Some err, w')"
  shows "flush env (c, w) =
           (c\<lparr>buffer := (buffer c)\<lparr>entries := []\<rparr>\<rparr>,
            w'\<lparr>logLines := logLines w' @ [''Failed to send logs to Loki: '' @ err]\<rparr>)
         \<and> length (posts w') \<le> length (posts w) + 1
         \<and> (\<forall>env2 c2 w2. buffer c2 = buffer c \<longrightarrow>
               buffer (fst (flush env2 (c2, w2))) = buffer (fst (flush env (c, w))))
         \<and> (\<forall>c0 w0 now msg lvl. started c0 \<and> \<not> closed c0 \<longrightarrow>
               fst (pushLogWithLevel env now msg lvl (c0, w0)) = None)"
proof -
  have 1: "flush env (c, w) =
           (c\<lparr>buffer := (buffer c)\<lparr>entries := []\<rparr>\<rparr>,
            w'\<lparr>logLines := logLines w' @ [''Failed to send logs to Loki: '' @ err]\<rparr>)"
    using assms by (simp add: flush_nonempty sendAndReport_def)
  have 2: "length (posts w') \<le> length (posts w) + 1"
    using send_posts_length [of env "c\<lparr>buffer := (buffer c)\<lparr>entries := []\<rparr>\<rparr>" w
            "buildRequest env (config c) (entries (buffer c))"] assms(2)
    by simp
  have 3: "buffer (fst (flush env2 (c2, w2))) = buffer (fst (flush env (c, w)))"
    if "buffer c2 = buffer c" for env2 c2 w2
    using that by (simp add: flush_fst)
  from 1 2 3 show ?thesis by (simp add: push_no_error)
qed

theorem failed_delivery_dropped_witness:
  "entries (buffer (demoClient failTransport demoEntries True False)) \<noteq> []
   \<and> send demoEnv (demoClient failTransport [] True False) demoWorld
        (buildRequest demoEnv (config (demoClient failTransport demoEntries True False)) demoEntries)
       = (Some ''unexpected status code: 500, body: overloaded'',
          demoWorld\<lparr>posts := [\<lparr>req_method = ''POST'', req_url = ''http://loki:3100/loki/api/v1/push'',
                                 req_contentType = ''application/json'', req_body = ''{}''\<rparr>]\<rparr>)
   \<and> flush demoEnv (demoClient failTransport demoEntries True False, demoWorld)
       = (demoClient failTransport [] True False,
          \<lparr>posts = [\<lparr>req_method = ''POST'', req_url = ''http://loki:3100/loki/api/v1/push'',
                      req_contentType = ''application/json'', req_body = ''{}''\<rparr>],
           logLines = [''Failed to send logs to Loki: unexpected status code: 500, body: overloaded''],
           workers = 0\<rparr>)
   \<and> fst (pushLogWithLevel demoEnv 3 ''c'' LevelInfo
            (demoClient failTransport (take 2 demoEntries) True False, demoWorld)) = None"
proof -
  let ?c = "demoClient failTransport demoEntries True False"
  have h1: "entries (buffer ?c) \<noteq> []"
    by (simp add: demoClient_def demoEntries_def)
  have e: "?c\<lparr>buffer := (buffer ?c)\<lparr>entries := []\<rparr>\<rparr> = demoClient failTransport [] True False"
          "entries (buffer ?c) = demoEntries"
    by (simp_all add: demoClient_def)
  have h2: "send demoEnv (demoClient failTransport [] True False) demoWorld
              (buildRequest demoEnv (config ?c) demoEntries)
       = (Some ''unexpected status code: 500, body: overloaded'',
          demoWorld\<lparr>posts := [\<lparr>req_method = ''POST'', req_url = ''http://loki:3100/loki/api/v1/push'',
                                 req_contentType = ''application/json'', req_body = ''{}''\<rparr>]\<rparr>)"
    by (simp add: send_def demoEnv_def demoClient_def demoConfig_def demoWorld_def failTransport_def
          FormatInt_def digit_char_def)
  have h2': "send demoEnv (?c\<lparr>buffer := (buffer ?c)\<lparr>entries := []\<rparr>\<rparr>) demoWorld
              (buildRequest demoEnv (config ?c) (entries (buffer ?c)))
       = (Some ''unexpected status code: 500, body: overloaded'',
          demoWorld\<lparr>posts := [\<lparr>req_method = ''POST'', req_url = ''http://loki:3100/loki/api/v1/push'',
                                 req_contentType = ''application/json'', req_body = ''{}''\<rparr>]\<rparr>)"
    using h2 by (simp only: e)
  have s: "started (demoClient failTransport (take 2 demoEntries) True False)
           \<and> \<not> closed (demoClient failTransport (take 2 demoEntries) True False)"
    by (simp add: demoClient_def)
  note t = failed_delivery_dropped [OF h1 h2']
  from t have a: "flush demoEnv (?c, demoWorld)
       = (demoClient failTransport [] True False,
          \<lparr>posts = [\<lparr>req_method = ''POST'', req_url = ''http://loki:3100/loki/api/v1/push'',
                      req_contentType = ''application/json'', req_body = ''{}''\<rparr>],
           logLines = [''Failed to send logs to Loki: unexpected status code: 500, body: overloaded''],
           workers = 0\<rparr>)"
    by (simp add: e demoWorld_def)
  from t s have b: "fst (pushLogWithLevel demoEnv 3 ''c'' LevelInfo
            (demoClient failTransport (take 2 demoEntries) True False, demoWorld)) = None"
    by blast
  from h1 h2 a b show ?thesis by blast
qed

section \<open>Construction\<close>

text \<open>
  C8. With an empty URL \<open>NewClient\<close> fails with "URL is required". Otherwise it
  returns a client whose configuration has batch size 100 in place of 0, minimum wait
  1 in place of 0, and as maximum wait the given one, or 10 in place of 0, unless that
  is not above the minimum wait, in which case it is the minimum wait plus one (in
  64-bit arithmetic). The other settings are kept, the buffer is empty and the client
  is neither started nor closed.
\<close>

theorem NewClient_normalizes:
  "(URL cfg = [] \<longrightarrow> NewClient env cfg = Inl ''URL is required'')
   \<and> (URL cfg \<noteq> [] \<longrightarrow>
        (\<exists>c. NewClient env cfg = Inr c
           \<and> BatchSize (config c) = (if BatchSize cfg = 0 then 100 else BatchSize cfg)
           \<and> MinWaitTime (config c) = (if MinWaitTime cfg = 0 then 1 else MinWaitTime cfg)
           \<and> MaxWaitTime (config c) =
               (let m = (if MaxWaitTime cfg = 0 then 10 else MaxWaitTime cfg)
                in if sint m \<le> sint (MinWaitTime (config c)) then MinWaitTime (config c) + 1 else m)
           \<and> URL (config c) = URL cfg \<and> Labels (config c) = Labels cfg
           \<and> MinLevel (config c) = MinLevel cfg \<and> HTTPClient (config c) = HTTPClient cfg
           \<and> entries (buffer c) = []
           \<and> size_buf (buffer c) = (if BatchSize (config c) \<le> 0 then 100 else BatchSize (config c))
           \<and> \<not> started c \<and> \<not> closed c))"
  by (simp add: NewClient_def Let_def NewBuffer_def)

theorem NewClient_normalizes_witness:
  "URL demoConfig \<noteq> []
   \<and> (\<exists>c. NewClient demoEnv demoConfig = Inr c
         \<and> BatchSize (config c) = 2 \<and> MinWaitTime (config c) = 1 \<and> MaxWaitTime (config c) = 10
         \<and> \<not> started c \<and> \<not> closed c \<and> entries (buffer c) = [])
   \<and> (\<exists>c. NewClient demoEnv (demoConfig\<lparr>BatchSize := 0, MinWaitTime := 20\<rparr>) = Inr c
         \<and> BatchSize (config c) = 100 \<and> MinWaitTime (config c) = 20 \<and> MaxWaitTime (config c) = 21)
   \<and> URL (demoConfig\<lparr>URL := []\<rparr>) = []
   \<and> NewClient demoEnv (demoConfig\<lparr>URL := []\<rparr>) = Inl ''URL is required''"
proof -
  have h: "URL demoConfig \<noteq> []" "URL (demoConfig\<lparr>BatchSize := 0, MinWaitTime := 20\<rparr>) \<noteq> []"
          "URL (demoConfig\<lparr>URL := []\<rparr>) = []"
    by (simp_all add: demoConfig_def)
  from h(1) NewClient_normalizes [of demoConfig demoEnv]
  have a: "\<exists>c. NewClient demoEnv demoConfig = Inr c
         \<and> BatchSize (config c) = 2 \<and> MinWaitTime (config c) = 1 \<and> MaxWaitTime (config c) = 10
         \<and> \<not> started c \<and> \<not> closed c \<and> entries (buffer c) = []"
    by (auto simp: demoConfig_def Let_def)
  from h(2) NewClient_normalizes [of "demoConfig\<lparr>BatchSize := 0, MinWaitTime := 20\<rparr>" demoEnv]
  have b: "\<exists>c. NewClient demoEnv (demoConfig\<lparr>BatchSize := 0, MinWaitTime := 20\<rparr>) = Inr c
         \<and> BatchSize (config c) = 100 \<and> MinWaitTime (config c) = 20 \<and> MaxWaitTime (config c) = 21"
    by (auto simp: demoConfig_def Let_def)
  from h(3) NewClient_normalizes [of "demoConfig\<lparr>URL := []\<rparr>" demoEnv]
  have c: "NewClient demoEnv (demoConfig\<lparr>URL := []\<rparr>) = Inl ''URL is required''"
    by blast
  from h a b c show ?thesis by blast
qed

section \<open>Stopping before starting\<close>

lemma Stop_not_started: "\<not> started c \<Longrightarrow> Stop env (c, w) = (c, w)"
  by (simp add: Stop_def)

lemma Stop_pow_not_started: "\<not> started c \<Longrightarrow> (Stop env ^^ n) (c, w) = (c, w)"
  by (induction n) (simp_all add: Stop_not_started)

lemma step_closes: "closed (fst (step env op (c0, w0))) \<Longrightarrow> \<not> closed c0 \<Longrightarrow> op = OpStop \<and> started c0"
  by (cases op) (simp_all add: push_closed Start_closed Stop_closed workerTick_closed workerDone_closed)

text \<open>
  C10. On a client that was never started, any number of \<open>Stop\<close> calls changes
  nothing, so the closed flag stays unset. A \<open>Start\<close> after them sets the started
  flag and spawns one worker, and a submit after that returns no error; if its level
  is not below the minimum, the entry is appended (and flushed when the threshold is
  reached). The only call or worker turn that sets the closed flag is a \<open>Stop\<close> on a
  started client.
\<close>

theorem stop_before_start_harmless:
  assumes "\<not> started c" and "\<not> closed c"
  shows "(Stop env ^^ n) (c, w) = (c, w)
     \<and> Start ((Stop env ^^ n) (c, w)) = (c\<lparr>started := True\<rparr>, w\<lparr>workers := workers w + 1\<rparr>)
     \<and> fst (pushLogWithLevel env now msg lvl (Start ((Stop env ^^ n) (c, w)))) = None
     \<and> (MinLevel (config c) \<le> lvl \<longrightarrow>
          snd (pushLogWithLevel env now msg lvl (Start ((Stop env ^^ n) (c, w)))) =
            (let c1 = c\<lparr>started := True,
                         buffer := (buffer c)\<lparr>entries := entries (buffer c)
                                     @ [\<lparr>Timestamp = now, Message = msg, Level = lvl\<rparr>]\<rparr>\<rparr>;
                 w1 = w\<lparr>workers := workers w + 1\<rparr>
             in if size_buf (buffer c) \<le> int (length (entries (buffer c))) + 1
                then flush env (c1, w1) else (c1, w1)))
     \<and> (\<forall>op c0 w0. closed (fst (step env op (c0, w0))) \<and> \<not> closed c0 \<longrightarrow> op = OpStop \<and> started c0)"
proof -
  have 1: "(Stop env ^^ n) (c, w) = (c, w)"
    using assms(1) by (rule Stop_pow_not_started)
  have 2: "Start (c, w) = (c\<lparr>started := True\<rparr>, w\<lparr>workers := workers w + 1\<rparr>)"
    using assms(1) by (simp add: Start_def Let_def)
  have 3: "fst (pushLogWithLevel env now msg lvl (c\<lparr>started := True\<rparr>, w\<lparr>workers := workers w + 1\<rparr>)) = None"
    using assms(2) by (simp add: push_no_error)
  have 4: "snd (pushLogWithLevel env now msg lvl (c\<lparr>started := True\<rparr>, w\<lparr>workers := workers w + 1\<rparr>)) =
            (let c1 = c\<lparr>started := True,
                         buffer := (buffer c)\<lparr>entries := entries (buffer c)
                                     @ [\<lparr>Timestamp = now, Message = msg, Level = lvl\<rparr>]\<rparr>\<rparr>;
                 w1 = w\<lparr>workers := workers w + 1\<rparr>
             in if size_buf (buffer c) \<le> int (length (entries (buffer c))) + 1
                then flush env (c1, w1) else (c1, w1))"
    if "MinLevel (config c) \<le> lvl"
    using that assms(2) by (simp add: pushLogWithLevel_def Add_def Let_def)
  have 5: "op = OpStop \<and> started c0" if "closed (fst (step env op (c0, w0)))" "\<not> closed c0" for op c0 w0
    using that by (rule step_closes)
  from 1 2 3 4 5 show ?thesis by (simp del: step.simps) blast
qed

theorem stop_before_start_harmless_witness:
  "\<not> started (demoClient okTransport [] False False)
   \<and> \<not> closed (demoClient okTransport [] False False)
   \<and> (Stop demoEnv ^^ 3) (demoClient okTransport [] False False, demoWorld)
       = (demoClient okTransport [] False False, demoWorld)
   \<and> Start ((Stop demoEnv ^^ 3) (demoClient okTransport [] False False, demoWorld))
       = (demoClient okTransport [] True False, demoWorld\<lparr>workers := 1\<rparr>)
   \<and> pushLogWithLevel demoEnv 1 ''a'' LevelInfo
        (Start ((Stop demoEnv ^^ 3) (demoClient okTransport [] False False, demoWorld)))
       = (None, demoClient okTransport [\<lparr>Timestamp = 1, Message = ''a'', Level = LevelInfo\<rparr>] True False,
          demoWorld\<lparr>workers := 1\<rparr>)"
proof -
  let ?c = "demoClient okTransport [] False False"
  have h: "\<not> started ?c" "\<not> closed ?c"
    by (simp_all add: demoClient_def)
  note t = stop_before_start_harmless [OF h, where env = demoEnv and n = 3 and w = demoWorld
                                            and now = 1 and msg = "''a''" and lvl = LevelInfo]
  have m: "MinLevel (config ?c) \<le> LevelInfo"
    by (simp add: demoClient_def demoConfig_def)
  from t have a: "(Stop demoEnv ^^ 3) (?c, demoWorld) = (?c, demoWorld)"
    by blast
  from t have b0: "Start ((Stop demoEnv ^^ 3) (?c, demoWorld))
       = (?c\<lparr>started := True\<rparr>, demoWorld\<lparr>workers := workers demoWorld + 1\<rparr>)"
    by blast
  have b1: "(?c\<lparr>started := True\<rparr>, demoWorld\<lparr>workers := workers demoWorld + 1\<rparr>)
       = (demoClient okTransport [] True False, demoWorld\<lparr>workers := 1\<rparr>)"
    by (simp add: demoClient_def demoWorld_def)
  from b0 b1 have b: "Start ((Stop demoEnv ^^ 3) (?c, demoWorld))
       = (demoClient okTransport [] True False, demoWorld\<lparr>workers := 1\<rparr>)"
    by (rule trans)
  from t have c1: "fst (pushLogWithLevel demoEnv 1 ''a'' LevelInfo (Start ((Stop demoEnv ^^ 3) (?c, demoWorld)))) = None"
    by blast
  from t m have c0: "snd (pushLogWithLevel demoEnv 1 ''a'' LevelInfo (Start ((Stop demoEnv ^^ 3) (?c, demoWorld))))
      = (let c1 = ?c\<lparr>started := True,
                         buffer := (buffer ?c)\<lparr>entries := entries (buffer ?c)
                                     @ [\<lparr>Timestamp = 1, Message = ''a'', Level = LevelInfo\<rparr>]\<rparr>\<rparr>;
                 w1 = demoWorld\<lparr>workers := workers demoWorld + 1\<rparr>
             in if size_buf (buffer ?c) \<le> int (length (entries (buffer ?c))) + 1
                then flush demoEnv (c1, w1) else (c1, w1))"
    by blast
  have c3: "(let c1 = ?c\<lparr>started := True,
                         buffer := (buffer ?c)\<lparr>entries := entries (buffer ?c)
                                     @ [\<lparr>Timestamp = 1, Message = ''a'', Level = LevelInfo\<rparr>]\<rparr>\<rparr>;
                 w1 = demoWorld\<lparr>workers := workers demoWorld + 1\<rparr>
             in if size_buf (buffer ?c) \<le> int (length (entries (buffer ?c))) + 1
                then flush demoEnv (c1, w1) else (c1, w1))
      = (demoClient okTransport [\<lparr>Timestamp = 1, Message = ''a'', Level = LevelInfo\<rparr>] True False,
          demoWorld\<lparr>workers := 1\<rparr>)"
    by (simp add: demoClient_def demoWorld_def Let_def)
  from c0 c3 have c2: "snd (pushLogWithLevel demoEnv 1 ''a'' LevelInfo (Start ((Stop demoEnv ^^ 3) (?c, demoWorld))))
      = (demoClient okTransport [\<lparr>Timestamp = 1, Message = ''a'', Level = LevelInfo\<rparr>] True False,
          demoWorld\<lparr>workers := 1\<rparr>)"
    by (rule trans)
  from c1 c2 have c: "pushLogWithLevel demoEnv 1 ''a'' LevelInfo (Start ((Stop demoEnv ^^ 3) (?c, demoWorld)))
       = (None, demoClient okTransport [\<lparr>Timestamp = 1, Message = ''a'', Level = LevelInfo\<rparr>] True False,
          demoWorld\<lparr>workers := 1\<rparr>)"
    by (simp add: prod_eq_iff)
  from h a b c show ?thesis by blast
qed

section \<open>The order of calls in the facade\<close>

lemma Logger_Fatal_calls:
  "lokiClient l = Some c \<Longrightarrow>
     calls (snd (Logger_Fatal env fieldsJSON now msg flds l)) =
       calls l @ [RemoteCall LevelError (formatMessage fieldsJSON msg flds), LocalCall FatalLevel msg]
   \<and> fst (Logger_Fatal env fieldsJSON now msg flds l) = Exited"
  by (simp add: Logger_Fatal_def andThen_def zapLog_def lokiLog_def Let_def FatalLevel_def
        PanicLevel_def split: prod.splits)

lemma Logger_returning_calls:
  assumes "lokiClient l = Some c"
  shows "calls (snd (Logger_Debug env fieldsJSON now msg flds l)) =
           calls l @ [LocalCall LevelDebug msg, RemoteCall LevelDebug (formatMessage fieldsJSON msg flds)]"
    and "calls (snd (Logger_Info env fieldsJSON now msg flds l)) =
           calls l @ [LocalCall LevelInfo msg, RemoteCall LevelInfo (formatMessage fieldsJSON msg flds)]"
    and "calls (snd (Logger_Warn env fieldsJSON now msg flds l)) =
           calls l @ [LocalCall LevelWarn msg, RemoteCall LevelWarn (formatMessage fieldsJSON msg flds)]"
    and "calls (snd (Logger_Error env fieldsJSON now msg flds l)) =
           calls l @ [LocalCall LevelError msg, RemoteCall LevelError (formatMessage fieldsJSON msg flds)]"
    and "calls (snd (Logger_DPanic env fieldsJSON now msg flds l)) =
           calls l @ [LocalCall DPanicLevel msg, RemoteCall LevelError (formatMessage fieldsJSON msg flds)]"
  using assms
  by (simp_all add: Logger_Debug_def Logger_Info_def Logger_Warn_def Logger_Error_def
        Logger_DPanic_def andThen_def zapLog_def lokiLog_def Let_def LevelDebug_def LevelInfo_def
        LevelWarn_def LevelError_def DPanicLevel_def FatalLevel_def PanicLevel_def
        split: prod.splits)

text \<open>
  C9. \<open>Fatal\<close> calls the Loki client first and the embedded logger second, and the
  methods that return (\<open>Debug\<close>, \<open>Info\<close>, \<open>Warn\<close>, \<open>Error\<close>, \<open>DPanic\<close>) call the embedded
  logger first and the Loki client second, as the two lemmas above say. \<open>Panic\<close> is
  written in the second order too, but the embedded logger's \<open>Panic\<close> does not return:
  the method ends in a panic after the local call, and the call to the Loki client
  that follows it in the source is never made.
\<close>

theorem Logger_Panic_skips_remote:
  "Logger_Panic env fieldsJSON now msg flds l =
     (Panicked, l\<lparr>calls := calls l @ [LocalCall PanicLevel msg]\<rparr>)"
  by (simp add: Logger_Panic_def andThen_def zapLog_def Let_def)

end
